theory Spec2Isabelle
  imports Complex_Main "HOL-Library.AList"
begin

section \<open>Data model of the market (s3-market-ath.floros.py)\<close>

text \<open>
  Python numbers (prices, quantities, dividends, timestamps) are modelled as \<open>real\<close>:
  the arithmetic of the model is exact, rounding of IEEE doubles is not represented.
  Trade identifiers are Python integers, modelled as \<open>int\<close>.

  Every exception of the source is a value of \<open>error\<close>. All exceptions the source
  raises itself are \<open>ValueError\<close>s that differ by raise site and message; the model
  tags each with the raise site:
  \<^item> \<open>InvalidSymbol\<close>: "Invalid stock name: ..." (\<open>Stock.__init__\<close>)
  \<^item> \<open>InvalidPrice\<close>: "...: Invalid price: ..." (\<open>Stock.__init__\<close>, \<open>Stock.set_price\<close>)
  \<^item> \<open>SymbolMismatch\<close>: "Cannot trade ... as ..." (\<open>Stock.add_trade\<close>)
  \<^item> \<open>DuplicateSymbol\<close>: "Already registered: ..." (\<open>Market.register\<close>)
  \<^item> \<open>NotFound\<close>: "Stock ... not found" (\<open>Market.buy_now\<close>, \<open>Market.sell_now\<close>)
  \<^item> \<open>InsufficientData\<close>: "Insufficient data" (\<open>Market.get_geometric_mean\<close>)

  The remaining constructors are the exceptions the Python runtime raises: a lookup of
  an attribute no class defines, a division by zero, a missing dictionary key.
\<close>

datatype value_error =
  InvalidSymbol | InvalidPrice | SymbolMismatch | DuplicateSymbol | NotFound | InsufficientData

datatype error = ValueError value_error | AttributeError | ZeroDivisionError | KeyError

datatype TradeIndicator = BUY | SELL

record Trade =
  trade_id :: int
  stock_name :: string
  quantity :: real
  indicator :: TradeIndicator
  traded_price :: real
  timestamp :: real

text \<open>
  The two subclasses of \<open>Stock\<close> share the fields \<open>name\<close>, \<open>price\<close> and \<open>trades\<close>;
  the fields a subclass adds are the arguments of its tag.
\<close>

datatype stock_kind =
  CommonStock (last_dividend: real)
| PreferredStock (fixed_dividend_ratio: real) (par_value: real)

record Stock =
  name :: string
  price :: real
  trades :: "Trade list"
  kind :: stock_kind

text \<open>
  A method that mutates its object returns the outcome of the call together with the
  object as the call leaves it, also when the call raises: what an exception leaves
  behind is part of the model.
\<close>

type_synonym 'a result = "error + 'a"

section \<open>Stock\<close>

text \<open>
  \<open>re.match("[A-Z]{3}", name)\<close> anchors the pattern at the start of the string only:
  it succeeds when the first three characters are in the range A to Z (code points 65
  to 90), whatever follows them.
\<close>

definition is_upper :: "char \<Rightarrow> bool" where
  "is_upper c = (65 \<le> (of_char c :: nat) \<and> (of_char c :: nat) \<le> 90)"

fun re_match_upper3 :: "string \<Rightarrow> bool" where
  "re_match_upper3 (a # b # c # rest) = (is_upper a \<and> is_upper b \<and> is_upper c)"
| "re_match_upper3 _ = False"

text \<open>\<open>name is not None and re.match("[A-Z]{3}", name)\<close>; \<open>None\<close> is the absent name.\<close>

definition is_valid_name :: "string option \<Rightarrow> bool" where
  "is_valid_name nm = (case nm of None \<Rightarrow> False | Some s \<Rightarrow> re_match_upper3 s)"

definition is_valid_price :: "string \<Rightarrow> real \<Rightarrow> bool" where
  "is_valid_price stockName p = True"

text \<open>
  \<open>Stock.__init__\<close> yields the three fields it sets; the subclass constructors call it
  first and then set their own fields.
\<close>

definition Stock_init :: "string option \<Rightarrow> real \<Rightarrow> (string \<times> real \<times> Trade list) result" where
  "Stock_init nm p =
     (case nm of
        None \<Rightarrow> Inl (ValueError InvalidSymbol)
      | Some s \<Rightarrow>
          if \<not> is_valid_name nm then Inl (ValueError InvalidSymbol)
          else if \<not> is_valid_price s p then Inl (ValueError InvalidPrice)
          else Inr (s, p, []))"

definition CommonStock_init :: "string option \<Rightarrow> real \<Rightarrow> real \<Rightarrow> Stock result" where
  "CommonStock_init nm ld p =
     (case Stock_init nm p of
        Inl e \<Rightarrow> Inl e
      | Inr (s, p', ts) \<Rightarrow>
          Inr \<lparr>name = s, price = p', trades = ts, kind = CommonStock ld\<rparr>)"

definition PreferredStock_init :: "string option \<Rightarrow> real \<Rightarrow> real \<Rightarrow> real \<Rightarrow> Stock result" where
  "PreferredStock_init nm fdr pv p =
     (case Stock_init nm p of
        Inl e \<Rightarrow> Inl e
      | Inr (s, p', ts) \<Rightarrow>
          Inr \<lparr>name = s, price = p', trades = ts, kind = PreferredStock fdr pv\<rparr>)"

definition set_price :: "Stock \<Rightarrow> real \<Rightarrow> unit result \<times> Stock" where
  "set_price self p =
     (if \<not> is_valid_price (name self) p then (Inl (ValueError InvalidPrice), self)
      else (Inr (), self\<lparr>price := p\<rparr>))"

definition add_trade :: "Stock \<Rightarrow> Trade \<Rightarrow> unit result \<times> Stock" where
  "add_trade self t =
     (if stock_name t \<noteq> name self then (Inl (ValueError SymbolMismatch), self)
      else
        (case set_price self (traded_price t) of
           (Inl e, self') \<Rightarrow> (Inl e, self')
         | (Inr u, self') \<Rightarrow> (Inr (), self'\<lparr>trades := trades self' @ [t]\<rparr>)))"

text \<open>Python's \<open>a / b\<close> on numbers raises \<open>ZeroDivisionError\<close> when \<open>b\<close> is zero.\<close>

definition py_div :: "real \<Rightarrow> real \<Rightarrow> real result" where
  "py_div a b = (if b = 0 then Inl ZeroDivisionError else Inr (a / b))"

text \<open>
  The loop of \<open>get_volume_weighted_price\<close> over \<open>reversed(self.trades)\<close>: the two
  accumulators are the state, \<open>break\<close> returns them as they are.
\<close>

fun vwp_loop :: "real \<Rightarrow> Trade list \<Rightarrow> real \<times> real \<Rightarrow> real \<times> real" where
  "vwp_loop bound [] (nominator, denominator) = (nominator, denominator)"
| "vwp_loop bound (t # ts) (nominator, denominator) =
     (if timestamp t < bound then (nominator, denominator)
      else vwp_loop bound ts
             (nominator + traded_price t * quantity t, denominator + quantity t))"

text \<open>
  \<open>time.time()\<close> is the argument \<open>now\<close>; the window length is the literal 10 of the
  source.
\<close>

definition get_volume_weighted_price :: "real \<Rightarrow> Stock \<Rightarrow> real result" where
  "get_volume_weighted_price now self =
     (let now_minus_10_seconds = now - 10;
          (nominator, denominator) = vwp_loop now_minus_10_seconds (rev (trades self)) (0, 0)
      in if denominator \<noteq> 0 then py_div nominator denominator else Inr 0)"

text \<open>\<open>get_dividend_yield\<close> dispatches on the subclass.\<close>

definition get_dividend_yield :: "Stock \<Rightarrow> real result" where
  "get_dividend_yield self =
     (case kind self of
        CommonStock ld \<Rightarrow>
          if price self \<noteq> 0 then py_div ld (price self) else Inr 0
      | PreferredStock fdr pv \<Rightarrow>
          if price self \<noteq> 0 then py_div (fdr * pv) (price self) else Inr 0)"

definition is_common :: "Stock \<Rightarrow> bool" where
  "is_common self = (case kind self of CommonStock ld \<Rightarrow> True | PreferredStock fdr pv \<Rightarrow> False)"

definition is_preferred :: "Stock \<Rightarrow> bool" where
  "is_preferred self = (case kind self of CommonStock ld \<Rightarrow> False | PreferredStock fdr pv \<Rightarrow> True)"

section \<open>Market\<close>

text \<open>
  \<open>stocks_by_name\<close> is a Python dictionary: its entries are kept in insertion order,
  which is the order \<open>values()\<close> iterates in. It is modelled as an association list;
  \<open>map_of\<close> is the lookup, \<open>AList.update\<close> the assignment \<open>d[k] = v\<close> (an existing
  key keeps its place, a new key goes to the end). The stocks are objects held by
  reference: a method called on \<open>self.stocks_by_name[k]\<close> changes the entry in place.
\<close>

record Market =
  stocks_by_name :: "(string \<times> Stock) list"
  trade_id_counter :: int

definition Market_init :: Market where
  "Market_init = \<lparr>stocks_by_name = [], trade_id_counter = 1\<rparr>"

definition register :: "Market \<Rightarrow> Stock \<Rightarrow> unit result \<times> Market" where
  "register self stock =
     (if name stock \<in> set (map fst (stocks_by_name self))
      then (Inl (ValueError DuplicateSymbol), self)
      else (Inr (),
            self\<lparr>stocks_by_name := AList.update (name stock) stock (stocks_by_name self)\<rparr>))"

definition find :: "Market \<Rightarrow> string \<Rightarrow> Stock result" where
  "find self nm =
     (case map_of (stocks_by_name self) nm of None \<Rightarrow> Inl KeyError | Some s \<Rightarrow> Inr s)"

definition buy_now :: "Market \<Rightarrow> string \<Rightarrow> real \<Rightarrow> real \<Rightarrow> real \<Rightarrow> unit result \<times> Market" where
  "buy_now self nm qty p now =
     (case map_of (stocks_by_name self) nm of
        None \<Rightarrow> (Inl (ValueError NotFound), self)
      | Some s \<Rightarrow>
          (case add_trade s
                  \<lparr>trade_id = trade_id_counter self, stock_name = nm, quantity = qty,
                   indicator = BUY, traded_price = p, timestamp = now\<rparr> of
             (Inl e, s') \<Rightarrow>
               (Inl e, self\<lparr>stocks_by_name := AList.update nm s' (stocks_by_name self)\<rparr>)
           | (Inr u, s') \<Rightarrow>
               (Inr (),
                self\<lparr>stocks_by_name := AList.update nm s' (stocks_by_name self),
                     trade_id_counter := trade_id_counter self + 1\<rparr>)))"

definition sell_now :: "Market \<Rightarrow> string \<Rightarrow> real \<Rightarrow> real \<Rightarrow> real \<Rightarrow> unit result \<times> Market" where
  "sell_now self nm qty p now =
     (case map_of (stocks_by_name self) nm of
        None \<Rightarrow> (Inl (ValueError NotFound), self)
      | Some s \<Rightarrow>
          (case add_trade s
                  \<lparr>trade_id = trade_id_counter self, stock_name = nm, quantity = qty,
                   indicator = SELL, traded_price = p, timestamp = now\<rparr> of
             (Inl e, s') \<Rightarrow>
               (Inl e, self\<lparr>stocks_by_name := AList.update nm s' (stocks_by_name self)\<rparr>)
           | (Inr u, s') \<Rightarrow>
               (Inr (),
                self\<lparr>stocks_by_name := AList.update nm s' (stocks_by_name self),
                     trade_id_counter := trade_id_counter self + 1\<rparr>)))"

text \<open>
  \<open>update_stock_prices\<close> iterates over \<open>new_prices.items()\<close>, the entries of a
  dictionary in insertion order. The lines it prints are collected in a list. An
  exception of \<open>set_price\<close> would leave the loop with the entries after it unread.
\<close>

definition not_found_message :: "string \<Rightarrow> string" where
  "not_found_message nm = ''Stock '' @ [CHR 0x27] @ nm @ [CHR 0x27] @ '' not found.''"

fun update_stock_prices_loop ::
  "(string \<times> real) list \<Rightarrow> Market \<times> string list \<Rightarrow> unit result \<times> Market \<times> string list" where
  "update_stock_prices_loop [] (self, out) = (Inr (), self, out)"
| "update_stock_prices_loop ((nm, new_price) # items) (self, out) =
     (case map_of (stocks_by_name self) nm of
        Some s \<Rightarrow>
          (case set_price s new_price of
             (Inl e, s') \<Rightarrow>
               (Inl e, self\<lparr>stocks_by_name := AList.update nm s' (stocks_by_name self)\<rparr>, out)
           | (Inr u, s') \<Rightarrow>
               update_stock_prices_loop items
                 (self\<lparr>stocks_by_name := AList.update nm s' (stocks_by_name self)\<rparr>, out))
      | None \<Rightarrow> update_stock_prices_loop items (self, out @ [not_found_message nm]))"

definition update_stock_prices ::
  "Market \<Rightarrow> (string \<times> real) list \<Rightarrow> unit result \<times> Market \<times> string list" where
  "update_stock_prices self new_prices = update_stock_prices_loop new_prices (self, [])"

text \<open>
  \<open>get_geometric_mean\<close> calls \<open>s.get_price()\<close> on every stock. Neither \<open>Stock\<close> nor
  \<open>CommonStock\<close> nor \<open>PreferredStock\<close> defines a method or an attribute of that name
  (the price is the attribute \<open>price\<close>), so the lookup raises \<open>AttributeError\<close>.
\<close>

definition get_price :: "Stock \<Rightarrow> real result" where
  "get_price self = Inl AttributeError"

fun product_loop :: "real \<Rightarrow> Stock list \<Rightarrow> real result" where
  "product_loop product [] = Inr product"
| "product_loop product (s # ss) =
     (case get_price s of
        Inl e \<Rightarrow> Inl e
      | Inr p \<Rightarrow> product_loop (product * p) ss)"

text \<open>\<open>product ** (1.0 / len(stocks))\<close> is the real power \<open>powr\<close>.\<close>

definition get_geometric_mean :: "Market \<Rightarrow> real result" where
  "get_geometric_mean self =
     (let stocks = map snd (stocks_by_name self)
      in if length stocks = 0 then Inl (ValueError InsufficientData)
         else
           (case product_loop 1 stocks of
              Inl e \<Rightarrow> Inl e
            | Inr product \<Rightarrow> Inr (product powr (1 / real (length stocks)))))"

section \<open>Notions the properties are stated with\<close>

text \<open>
  The volume weighted price as the specification words it: filter the whole log for
  the trades of the window, then divide the sum of price times quantity by the sum of
  quantity. A trade is outside the window when it is older than \<open>now - 10\<close>; the
  second predicate also bounds the window at \<open>now\<close>. The division is guarded as in the
  source, so that no value depends on a division by zero.
\<close>

definition window_trades :: "real \<Rightarrow> Trade list \<Rightarrow> Trade list" where
  "window_trades now ts = filter (\<lambda>t. now - 10 \<le> timestamp t) ts"

definition in_trailing_window :: "real \<Rightarrow> Trade \<Rightarrow> bool" where
  "in_trailing_window now t = (now - 10 \<le> timestamp t \<and> timestamp t \<le> now)"

definition sum_price_quantity :: "Trade list \<Rightarrow> real" where
  "sum_price_quantity ts = sum_list (map (\<lambda>t. traded_price t * quantity t) ts)"

definition sum_quantity :: "Trade list \<Rightarrow> real" where
  "sum_quantity ts = sum_list (map quantity ts)"

definition filtered_volume_weighted_price :: "real \<Rightarrow> Trade list \<Rightarrow> real" where
  "filtered_volume_weighted_price now ts =
     (let w = window_trades now ts
      in if sum_quantity w = 0 then 0 else sum_price_quantity w / sum_quantity w)"

text \<open>
  The value the specification gives for the trailing window that ends at \<open>now\<close>: 0
  when no trade of the log has its timestamp between \<open>now - 10\<close> and \<open>now\<close>, and
  otherwise the quotient of the two sums over exactly these trades. The quotient is
  taken with \<open>py_div\<close>: where the quantities sum to 0 the specification names no
  value.
\<close>

definition spec_volume_weighted_price :: "real \<Rightarrow> Trade list \<Rightarrow> real result" where
  "spec_volume_weighted_price now ts =
     (let w = filter (in_trailing_window now) ts
      in if w = [] then Inr 0 else py_div (sum_price_quantity w) (sum_quantity w))"

text \<open>
  Sequences of calls on a market. \<open>step\<close> runs one call; \<open>recorded\<close> reads off the
  market after a \<open>buy_now\<close> or \<open>sell_now\<close> the trades the call has added to the log
  of its stock; \<open>run\<close> runs the calls in order and collects the recorded trades.
\<close>

datatype call =
  Register Stock
| BuyNow string real real real
| SellNow string real real real
| UpdateStockPrices "(string \<times> real) list"

fun step :: "Market \<Rightarrow> call \<Rightarrow> unit result \<times> Market" where
  "step m (Register s) = register m s"
| "step m (BuyNow nm qty p now) = buy_now m nm qty p now"
| "step m (SellNow nm qty p now) = sell_now m nm qty p now"
| "step m (UpdateStockPrices new_prices) =
     (case update_stock_prices m new_prices of (r, m', out) \<Rightarrow> (r, m'))"

definition appended :: "Market \<Rightarrow> Market \<Rightarrow> string \<Rightarrow> Trade list" where
  "appended m m' nm =
     (case map_of (stocks_by_name m) nm of
        None \<Rightarrow> []
      | Some s \<Rightarrow>
          (case map_of (stocks_by_name m') nm of
             None \<Rightarrow> []
           | Some s' \<Rightarrow> drop (length (trades s)) (trades s')))"

fun recorded :: "Market \<Rightarrow> call \<Rightarrow> Trade list" where
  "recorded m (BuyNow nm qty p now) = appended m (snd (buy_now m nm qty p now)) nm"
| "recorded m (SellNow nm qty p now) = appended m (snd (sell_now m nm qty p now)) nm"
| "recorded m (Register s) = []"
| "recorded m (UpdateStockPrices new_prices) = []"

fun is_trade_call :: "call \<Rightarrow> bool" where
  "is_trade_call (BuyNow nm qty p now) = True"
| "is_trade_call (SellNow nm qty p now) = True"
| "is_trade_call (Register s) = False"
| "is_trade_call (UpdateStockPrices new_prices) = False"

fun run :: "Market \<Rightarrow> call list \<Rightarrow> Market \<times> Trade list" where
  "run m [] = (m, [])"
| "run m (c # cs) =
     (case run (snd (step m c)) cs of (m', ts) \<Rightarrow> (m', recorded m c @ ts))"

fun successful_trades :: "Market \<Rightarrow> call list \<Rightarrow> nat" where
  "successful_trades m [] = 0"
| "successful_trades m (c # cs) =
     (if is_trade_call c \<and> fst (step m c) = Inr () then 1 else 0)
       + successful_trades (snd (step m c)) cs"

section \<open>Sample data\<close>

text \<open>
  The stocks and trades of the demonstration at the end of the source (TEA and GIN,
  ten TEA bought at 34.30, twenty sold at 34.20 one second later), with one older trade
  added that lies outside the window of a query at time 2.
\<close>

definition tea :: Stock where
  "tea = \<lparr>name = ''TEA'', price = 34.42, trades = [], kind = CommonStock 0\<rparr>"

definition gin :: Stock where
  "gin = \<lparr>name = ''GIN'', price = 15.45, trades = [], kind = PreferredStock 0.02 100\<rparr>"

definition trade_old :: Trade where
  "trade_old = \<lparr>trade_id = 1, stock_name = ''TEA'', quantity = 5, indicator = BUY,
                 traded_price = 50, timestamp = - 20\<rparr>"

definition trade_buy :: Trade where
  "trade_buy = \<lparr>trade_id = 2, stock_name = ''TEA'', quantity = 10, indicator = BUY,
                 traded_price = 34.30, timestamp = 0\<rparr>"

definition trade_sell :: Trade where
  "trade_sell = \<lparr>trade_id = 3, stock_name = ''TEA'', quantity = 20, indicator = SELL,
                  traded_price = 34.20, timestamp = 1\<rparr>"

definition tea_traded :: Stock where
  "tea_traded = tea\<lparr>price := 34.20, trades := [trade_old, trade_buy, trade_sell]\<rparr>"

text \<open>
  A log in timestamp order whose last trade is stamped after the time 2 of the query.
\<close>

definition trade_early :: Trade where
  "trade_early = \<lparr>trade_id = 1, stock_name = ''TEA'', quantity = 2, indicator = BUY,
                   traded_price = 3, timestamp = 0\<rparr>"

definition trade_late :: Trade where
  "trade_late = \<lparr>trade_id = 2, stock_name = ''TEA'', quantity = 6, indicator = BUY,
                  traded_price = 5, timestamp = 100\<rparr>"

definition tea_late :: Stock where
  "tea_late = tea\<lparr>price := 5, trades := [trade_early, trade_late]\<rparr>"

definition demo_market :: Market where
  "demo_market = \<lparr>stocks_by_name = [(''TEA'', tea), (''GIN'', gin)], trade_id_counter = 1\<rparr>"

text \<open>
  A sequence of calls in which a purchase of an unregistered stock and a second
  registration of TEA fail between the successful trades.
\<close>

definition demo_calls :: "call list" where
  "demo_calls =
     [Register tea, BuyNow ''GIN'' 1 1 0, BuyNow ''TEA'' 10 34.30 0, Register gin,
      SellNow ''TEA'' 20 34.20 1, Register tea, SellNow ''GIN'' 5 15 2]"

lemmas sample_defs =
  tea_def gin_def trade_old_def trade_buy_def trade_sell_def tea_traded_def demo_market_def
  trade_early_def trade_late_def tea_late_def

section \<open>The volume weighted price\<close>

lemma vwp_loop_takeWhile:
  "vwp_loop b xs (n, d) =
     (n + sum_price_quantity (takeWhile (\<lambda>t. b \<le> timestamp t) xs),
      d + sum_quantity (takeWhile (\<lambda>t. b \<le> timestamp t) xs))"
  by (induction xs arbitrary: n d) (auto simp add: sum_price_quantity_def sum_quantity_def)

lemma takeWhile_filter_descending:
  "sorted (rev (map f xs)) \<Longrightarrow>
     takeWhile (\<lambda>t. (b::real) \<le> f t) xs = filter (\<lambda>t. b \<le> f t) xs"
proof (induction xs)
  case Nil
  then show ?case by simp
next
  case (Cons x xs)
  from Cons.prems have later: "\<forall>y\<in>set xs. f y \<le> f x" and rest: "sorted (rev (map f xs))"
    by (auto simp add: sorted_append)
  show ?case
  proof (cases "b \<le> f x")
    case True
    then show ?thesis using Cons.IH [OF rest] by simp
  next
    case False
    with later have "\<forall>y\<in>set xs. \<not> b \<le> f y" by fastforce
    then have "filter (\<lambda>t. b \<le> f t) xs = []" by (simp add: filter_empty_conv)
    with False show ?thesis by simp
  qed
qed

lemma scan_is_filter:
  assumes "sorted (map timestamp ts)"
  shows "takeWhile (\<lambda>t. b \<le> timestamp t) (rev ts) = rev (filter (\<lambda>t. b \<le> timestamp t) ts)"
proof -
  have "sorted (rev (map timestamp (rev ts)))" using assms by (simp add: rev_map)
  then have "takeWhile (\<lambda>t. b \<le> timestamp t) (rev ts) = filter (\<lambda>t. b \<le> timestamp t) (rev ts)"
    by (rule takeWhile_filter_descending)
  then show ?thesis by (simp add: rev_filter)
qed

lemma sum_price_quantity_rev: "sum_price_quantity (rev ts) = sum_price_quantity ts"
  by (simp add: sum_price_quantity_def rev_map [symmetric] sum_list_rev del: rev_map)

lemma sum_quantity_rev: "sum_quantity (rev ts) = sum_quantity ts"
  by (simp add: sum_quantity_def rev_map [symmetric] sum_list_rev del: rev_map)

lemma sum_quantity_pos:
  "ts \<noteq> [] \<Longrightarrow> \<forall>t\<in>set ts. 0 < quantity t \<Longrightarrow> 0 < sum_quantity ts"
proof (induction ts)
  case Nil
  then show ?case by simp
next
  case (Cons a ts)
  have "0 \<le> sum_quantity ts"
    unfolding sum_quantity_def using Cons.prems(2)
    by (intro sum_list_nonneg) (auto simp add: less_imp_le)
  moreover have "0 < quantity a" using Cons.prems(2) by simp
  ultimately show ?case by (simp add: sum_quantity_def)
qed

lemma scan_equals_filtering:
  assumes "sorted (map timestamp (trades s))"
  shows "get_volume_weighted_price now s = Inr (filtered_volume_weighted_price now (trades s))"
  using scan_is_filter [OF assms, of "now - 10"]
  by (simp add: get_volume_weighted_price_def vwp_loop_takeWhile
      filtered_volume_weighted_price_def window_trades_def
      sum_price_quantity_rev sum_quantity_rev py_div_def Let_def)

text \<open>
  Claim C1, amended. The source tests a trade against the lower end of the window
  only (\<open>timestamp < now - 10\<close> leaves the loop); it has no test against \<open>now\<close>.
  For a stock whose trade log is ordered by non-decreasing timestamp,
  \<open>get_volume_weighted_price\<close> at time \<open>now\<close> never fails, and the reverse scan with
  early exit returns what filtering the whole log for the trades not older than
  \<open>now - 10\<close> returns: 0 when there is no such trade, and when there are some
  (quantities being positive) the sum of price times quantity divided by the sum of
  quantity over exactly these trades. When in addition no trade of the log is stamped
  after \<open>now\<close>, these are exactly the trades of the trailing window from \<open>now - 10\<close>
  to \<open>now\<close>, and the result is the value the specification gives for that window.
\<close>

theorem get_volume_weighted_price_window:
  assumes "sorted (map timestamp (trades s))"
  shows "get_volume_weighted_price now s = Inr (filtered_volume_weighted_price now (trades s)) \<and>
    (window_trades now (trades s) = [] \<longrightarrow> get_volume_weighted_price now s = Inr 0) \<and>
    (window_trades now (trades s) \<noteq> [] \<and> (\<forall>t\<in>set (trades s). 0 < quantity t) \<longrightarrow>
       sum_quantity (window_trades now (trades s)) \<noteq> 0 \<and>
       get_volume_weighted_price now s =
         Inr (sum_price_quantity (window_trades now (trades s))
                / sum_quantity (window_trades now (trades s)))) \<and>
    ((\<forall>t\<in>set (trades s). timestamp t \<le> now) \<longrightarrow>
       window_trades now (trades s) = filter (in_trailing_window now) (trades s)) \<and>
    ((\<forall>t\<in>set (trades s). timestamp t \<le> now) \<and> (\<forall>t\<in>set (trades s). 0 < quantity t) \<longrightarrow>
       get_volume_weighted_price now s = spec_volume_weighted_price now (trades s))"
proof -
  have main: "get_volume_weighted_price now s = Inr (filtered_volume_weighted_price now (trades s))"
    using assms by (rule scan_equals_filtering)
  have empty: "window_trades now (trades s) = [] \<Longrightarrow> get_volume_weighted_price now s = Inr 0"
    by (simp add: main filtered_volume_weighted_price_def sum_quantity_def)
  have pos: "sum_quantity (window_trades now (trades s)) \<noteq> 0"
    if "window_trades now (trades s) \<noteq> []" "\<forall>t\<in>set (trades s). 0 < quantity t"
  proof -
    have "\<forall>t\<in>set (window_trades now (trades s)). 0 < quantity t"
      using that(2) by (simp add: window_trades_def)
    with that(1) have "0 < sum_quantity (window_trades now (trades s))"
      by (rule sum_quantity_pos)
    then show ?thesis by simp
  qed
  have two_sided: "window_trades now (trades s) = filter (in_trailing_window now) (trades s)"
    if "\<forall>t\<in>set (trades s). timestamp t \<le> now"
    unfolding window_trades_def in_trailing_window_def
    using that by (intro filter_cong) auto
  have spec: "get_volume_weighted_price now s = spec_volume_weighted_price now (trades s)"
    if bounded: "\<forall>t\<in>set (trades s). timestamp t \<le> now"
      and positive: "\<forall>t\<in>set (trades s). 0 < quantity t"
  proof (cases "window_trades now (trades s) = []")
    case True
    then show ?thesis
      using empty two_sided [OF bounded] by (simp add: spec_volume_weighted_price_def)
  next
    case False
    then show ?thesis
      using main pos [OF False positive] two_sided [OF bounded]
      by (simp add: spec_volume_weighted_price_def filtered_volume_weighted_price_def
          py_div_def Let_def)
  qed
  show ?thesis
    using main empty pos two_sided spec
    by (simp add: filtered_volume_weighted_price_def Let_def)
qed

theorem get_volume_weighted_price_window_witness:
  "sorted (map timestamp (trades tea_traded)) \<and>
   list_all (\<lambda>t. 0 < quantity t) (trades tea_traded) \<and>
   list_all (\<lambda>t. timestamp t \<le> 2) (trades tea_traded) \<and>
   window_trades 2 (trades tea_traded) \<noteq> [] \<and>
   filter (in_trailing_window 2) (trades tea_traded) = [trade_buy, trade_sell] \<and>
   get_volume_weighted_price 2 tea_traded = Inr (1027 / 30) \<and>
   spec_volume_weighted_price 2 (trades tea_traded) = Inr (1027 / 30) \<and>
   sorted (map timestamp (trades tea_traded)) \<and>
   window_trades 20 (trades tea_traded) = [] \<and>
   get_volume_weighted_price 20 tea_traded = Inr 0"
  using get_volume_weighted_price_window [of tea_traded 2]
    get_volume_weighted_price_window [of tea_traded 20]
  by (simp add: sample_defs window_trades_def in_trailing_window_def
      filtered_volume_weighted_price_def spec_volume_weighted_price_def py_div_def
      sum_price_quantity_def sum_quantity_def)

text \<open>
  The claim as first worded, with the trailing window from \<open>now - 10\<close> to \<open>now\<close> and
  no condition but the order of the log, fails on a log with a trade stamped after
  \<open>now\<close>. Two TEA at price 3 traded at time 0 and six at price 5 at time 100, queried
  at time 2: the log is in timestamp order, only the first trade lies in the window,
  so that the value of the specification is 3; the scan adds both trades and returns
  36 / 8.
\<close>

theorem get_volume_weighted_price_window_counterexample:
  "sorted (map timestamp (trades tea_late)) \<and>
   list_all (\<lambda>t. 0 < quantity t) (trades tea_late) \<and>
   filter (in_trailing_window 2) (trades tea_late) = [trade_early] \<and>
   spec_volume_weighted_price 2 (trades tea_late) = Inr 3 \<and>
   get_volume_weighted_price 2 tea_late = Inr (9 / 2) \<and>
   get_volume_weighted_price 2 tea_late \<noteq> spec_volume_weighted_price 2 (trades tea_late)"
  by (simp add: sample_defs get_volume_weighted_price_def spec_volume_weighted_price_def
      in_trailing_window_def py_div_def sum_price_quantity_def sum_quantity_def)

section \<open>Prices and trades of one stock\<close>

lemma set_price_cases:
  "(\<not> is_valid_price (name s) p \<and> set_price s p = (Inl (ValueError InvalidPrice), s)) \<or>
   (is_valid_price (name s) p \<and> set_price s p = (Inr (), s\<lparr>price := p\<rparr>))"
  by (simp add: set_price_def)

text \<open>
  Claim C9. \<open>set_price\<close> fails with \<open>InvalidPrice\<close> exactly when \<open>is_valid_price\<close>
  rejects the price, which it never does: for every stock and every price, negative
  ones included, the call succeeds and replaces the price, and the name, the trade
  log and the fields of the subclass are as before.
\<close>

theorem set_price_frame:
  "(fst (set_price s p) = Inl (ValueError InvalidPrice) \<longleftrightarrow> \<not> is_valid_price (name s) p) \<and>
   fst (set_price s p) \<noteq> Inl (ValueError InvalidPrice) \<and>
   set_price s p = (Inr (), s\<lparr>price := p\<rparr>) \<and>
   price (snd (set_price s p)) = p \<and>
   name (snd (set_price s p)) = name s \<and>
   trades (snd (set_price s p)) = trades s \<and>
   kind (snd (set_price s p)) = kind s"
  by (simp add: set_price_def is_valid_price_def)

theorem set_price_frame_witness:
  "set_price tea_traded (- 5) = (Inr (), tea_traded\<lparr>price := - 5\<rparr>) \<and>
   trades (snd (set_price tea_traded (- 5))) = [trade_old, trade_buy, trade_sell] \<and>
   name (snd (set_price tea_traded (- 5))) = ''TEA''"
  using set_price_frame [of tea_traded "- 5"]
  by (simp add: sample_defs)

text \<open>
  Claim C4. \<open>add_trade\<close> fails with \<open>SymbolMismatch\<close> when the stock name of the trade
  differs from the name of the stock. Otherwise it runs \<open>set_price\<close> with the price of
  the trade: when that fails, \<open>add_trade\<close> fails with the same error; when it succeeds,
  the trade is appended to the end of the log. The trade is appended if and only if
  the names agree and the price update succeeds, and a failing \<open>add_trade\<close> (it can
  only fail with \<open>SymbolMismatch\<close> or \<open>InvalidPrice\<close>) leaves the stock, its price and
  its log included, as it was.
\<close>

theorem add_trade_atomic:
  "(stock_name t \<noteq> name s \<longrightarrow> add_trade s t = (Inl (ValueError SymbolMismatch), s)) \<and>
   (stock_name t = name s \<longrightarrow>
      (\<forall>e s'. set_price s (traded_price t) = (Inl e, s') \<longrightarrow> add_trade s t = (Inl e, s)) \<and>
      (\<forall>s'. set_price s (traded_price t) = (Inr (), s') \<longrightarrow>
          add_trade s t = (Inr (), s'\<lparr>trades := trades s @ [t]\<rparr>))) \<and>
   (trades (snd (add_trade s t)) = trades s @ [t] \<longleftrightarrow>
      stock_name t = name s \<and> fst (set_price s (traded_price t)) = Inr ()) \<and>
   (\<forall>e. fst (add_trade s t) = Inl e \<longrightarrow>
      (e = ValueError SymbolMismatch \<or> e = ValueError InvalidPrice) \<and> snd (add_trade s t) = s)"
  using set_price_cases [of s "traded_price t"]
  by (auto simp add: add_trade_def)

theorem add_trade_atomic_witness:
  "stock_name trade_buy = name tea \<and>
   set_price tea (traded_price trade_buy) = (Inr (), tea\<lparr>price := 34.30\<rparr>) \<and>
   add_trade tea trade_buy = (Inr (), tea\<lparr>price := 34.30, trades := [trade_buy]\<rparr>) \<and>
   stock_name trade_buy \<noteq> name gin \<and>
   fst (add_trade gin trade_buy) = Inl (ValueError SymbolMismatch) \<and>
   snd (add_trade gin trade_buy) = gin"
  using add_trade_atomic [of trade_buy tea] add_trade_atomic [of trade_buy gin]
  by (simp add: sample_defs set_price_def is_valid_price_def)

text \<open>
  Claim C6. The dividend yield of a common stock is its last dividend divided by its
  price, that of a preferred stock its fixed dividend ratio times its par value divided
  by its price; at price 0 either is 0. The call never fails: no division by zero is
  reached.
\<close>

theorem get_dividend_yield_formula:
  "(\<forall>ld. kind s = CommonStock ld \<longrightarrow>
      get_dividend_yield s = Inr (if price s = 0 then 0 else ld / price s)) \<and>
   (\<forall>fdr pv. kind s = PreferredStock fdr pv \<longrightarrow>
      get_dividend_yield s = Inr (if price s = 0 then 0 else (fdr * pv) / price s)) \<and>
   (\<exists>y. get_dividend_yield s = Inr y)"
  by (cases "kind s") (simp_all add: get_dividend_yield_def py_div_def)

theorem get_dividend_yield_formula_witness:
  "kind tea = CommonStock 0 \<and> get_dividend_yield tea = Inr 0 \<and>
   kind gin = PreferredStock 0.02 100 \<and> get_dividend_yield gin = Inr (40 / 309) \<and>
   kind (gin\<lparr>price := 0\<rparr>) = PreferredStock 0.02 100 \<and>
   get_dividend_yield (gin\<lparr>price := 0\<rparr>) = Inr 0"
proof -
  have k1: "kind tea = CommonStock 0" and k2: "kind gin = PreferredStock 0.02 100"
    and k3: "kind (gin\<lparr>price := 0\<rparr>) = PreferredStock 0.02 100"
    by (simp_all add: sample_defs)
  from k1 get_dividend_yield_formula [of tea]
  have "get_dividend_yield tea = Inr (if price tea = 0 then 0 else 0 / price tea)"
    by blast
  moreover from k2 get_dividend_yield_formula [of gin]
  have "get_dividend_yield gin = Inr (if price gin = 0 then 0 else (0.02 * 100) / price gin)"
    by blast
  moreover from k3 get_dividend_yield_formula [of "gin\<lparr>price := 0\<rparr>"]
  have "get_dividend_yield (gin\<lparr>price := 0\<rparr>) =
          Inr (if price (gin\<lparr>price := 0\<rparr>) = 0 then 0
               else (0.02 * 100) / price (gin\<lparr>price := 0\<rparr>))"
    by blast
  ultimately show ?thesis using k1 k2 k3 by (simp add: sample_defs)
qed

section \<open>Construction of a stock\<close>

lemma Stock_init_three_upper:
  "is_upper a \<Longrightarrow> is_upper b \<Longrightarrow> is_upper c \<Longrightarrow>
     Stock_init (Some [a, b, c]) p = Inr ([a, b, c], p, [])"
  by (simp add: Stock_init_def is_valid_name_def is_valid_price_def)

lemma Stock_init_prefix:
  "Stock_init nm p =
     (if is_valid_name nm then Inr (the nm, p, []) else Inl (ValueError InvalidSymbol))"
  by (cases nm) (simp_all add: Stock_init_def is_valid_name_def is_valid_price_def)

text \<open>
  Claim C3 asks that construction fail with \<open>InvalidSymbol\<close> for every symbol that is
  not exactly three upper-case letters. The source tests the symbol with \<open>re.match\<close>,
  which looks at the first three characters only: the four-letter symbol ABCD is
  accepted, by either subclass, and so is ABC followed by lower-case letters.
\<close>

theorem Stock_init_accepts_longer_symbol:
  "CommonStock_init (Some ''ABCD'') 0 1 =
     Inr \<lparr>name = ''ABCD'', price = 1, trades = [], kind = CommonStock 0\<rparr> \<and>
   PreferredStock_init (Some ''ABCxyz'') 0.02 100 1 =
     Inr \<lparr>name = ''ABCxyz'', price = 1, trades = [], kind = PreferredStock 0.02 100\<rparr>"
  by (simp add: CommonStock_init_def PreferredStock_init_def Stock_init_def is_valid_name_def
      is_valid_price_def is_upper_def)

section \<open>The registry\<close>

lemma update_fresh: "k \<notin> fst ` set al \<Longrightarrow> AList.update k v al = al @ [(k, v)]"
  by (induction al) auto

text \<open>
  Claim C8. \<open>register\<close> fails with \<open>DuplicateSymbol\<close> if and only if a stock is
  registered under the name of the new stock; a failing call leaves the market, and
  with it the stock registered before, as it was. A successful call adds the stock
  under its name at the end of the dictionary, with every other entry and the trade-id
  counter as before.
\<close>

theorem register_duplicate:
  "(fst (register m s) = Inl (ValueError DuplicateSymbol) \<longleftrightarrow>
      name s \<in> fst ` set (stocks_by_name m)) \<and>
   (\<forall>e. fst (register m s) = Inl e \<longrightarrow>
      e = ValueError DuplicateSymbol \<and> snd (register m s) = m) \<and>
   (fst (register m s) = Inr () \<longrightarrow>
      stocks_by_name (snd (register m s)) = stocks_by_name m @ [(name s, s)] \<and>
      map_of (stocks_by_name (snd (register m s))) = (map_of (stocks_by_name m))(name s \<mapsto> s) \<and>
      trade_id_counter (snd (register m s)) = trade_id_counter m)"
proof (cases "name s \<in> fst ` set (stocks_by_name m)")
  case True
  then show ?thesis by (simp add: register_def)
next
  case False
  have "map_of (AList.update (name s) s (stocks_by_name m)) =
          (map_of (stocks_by_name m))(name s \<mapsto> s)"
    by (rule AList.update_conv')
  moreover have "AList.update (name s) s (stocks_by_name m) = stocks_by_name m @ [(name s, s)]"
    using False by (rule update_fresh)
  ultimately show ?thesis using False by (simp add: register_def)
qed

theorem register_duplicate_witness:
  "fst (register demo_market tea_traded) = Inl (ValueError DuplicateSymbol) \<and>
   snd (register demo_market tea_traded) = demo_market \<and>
   fst (register Market_init tea) = Inr () \<and>
   stocks_by_name (snd (register Market_init tea)) = [(''TEA'', tea)]"
  using register_duplicate [of demo_market tea_traded] register_duplicate [of Market_init tea]
  by (simp add: sample_defs Market_init_def register_def)

section \<open>The geometric mean\<close>

lemma get_geometric_mean_empty:
  "stocks_by_name m = [] \<Longrightarrow> get_geometric_mean m = Inl (ValueError InsufficientData)"
  by (simp add: get_geometric_mean_def)

lemma get_geometric_mean_nonempty:
  "stocks_by_name m \<noteq> [] \<Longrightarrow> get_geometric_mean m = Inl AttributeError"
  by (cases "stocks_by_name m") (simp_all add: get_geometric_mean_def get_price_def)

text \<open>
  Claim C2 asks that \<open>get_geometric_mean\<close> return the n-th root of the product of the
  prices when stocks are registered. On the market of the demonstration, with TEA at
  34.42 and GIN at 15.45, the call does not return the square root of their product:
  it raises \<open>AttributeError\<close> at the first stock, since no class defines \<open>get_price\<close>.
\<close>

theorem get_geometric_mean_raises:
  "get_geometric_mean demo_market = Inl AttributeError"
  by (simp add: get_geometric_mean_def get_price_def demo_market_def)

section \<open>Buying and selling\<close>

text \<open>
  Claim C10. \<open>buy_now\<close> and \<open>sell_now\<close> have the same outcome on the same arguments:
  both succeed or both fail with the same error. When they fail the market is as
  before. When they succeed, the stock of that name has the new price and one more
  trade at the end of its log, and the counter is one higher; the two resulting
  markets differ in the indicator of that trade only, \<open>BUY\<close> for \<open>buy_now\<close> and
  \<open>SELL\<close> for \<open>sell_now\<close>.
\<close>

theorem buy_now_sell_now_same:
  "fst (buy_now m nm q p t) = fst (sell_now m nm q p t) \<and>
   (\<forall>e. fst (buy_now m nm q p t) = Inl e \<longrightarrow>
      snd (buy_now m nm q p t) = m \<and> snd (sell_now m nm q p t) = m) \<and>
   (fst (buy_now m nm q p t) = Inr () \<longrightarrow>
      (\<exists>s. map_of (stocks_by_name m) nm = Some s \<and>
        snd (buy_now m nm q p t) =
          m\<lparr>stocks_by_name := AList.update nm
               (s\<lparr>price := p, trades := trades s @
                  [\<lparr>trade_id = trade_id_counter m, stock_name = nm, quantity = q,
                    indicator = BUY, traded_price = p, timestamp = t\<rparr>]\<rparr>) (stocks_by_name m),
             trade_id_counter := trade_id_counter m + 1\<rparr> \<and>
        snd (sell_now m nm q p t) =
          m\<lparr>stocks_by_name := AList.update nm
               (s\<lparr>price := p, trades := trades s @
                  [\<lparr>trade_id = trade_id_counter m, stock_name = nm, quantity = q,
                    indicator = SELL, traded_price = p, timestamp = t\<rparr>]\<rparr>) (stocks_by_name m),
             trade_id_counter := trade_id_counter m + 1\<rparr>))"
proof (cases "map_of (stocks_by_name m) nm")
  case None
  then show ?thesis by (simp add: buy_now_def sell_now_def)
next
  case (Some s)
  then show ?thesis
    by (simp add: buy_now_def sell_now_def add_trade_def set_price_def is_valid_price_def
        AList.update_triv)
qed

theorem buy_now_sell_now_same_witness:
  "fst (buy_now demo_market ''TEA'' 10 34.30 0) = Inr () \<and>
   fst (sell_now demo_market ''TEA'' 10 34.30 0) = Inr () \<and>
   trade_id_counter (snd (sell_now demo_market ''TEA'' 10 34.30 0)) = 2 \<and>
   fst (buy_now demo_market ''ZZZ'' 10 34.30 0) = Inl (ValueError NotFound) \<and>
   fst (sell_now demo_market ''ZZZ'' 10 34.30 0) = Inl (ValueError NotFound) \<and>
   snd (sell_now demo_market ''ZZZ'' 10 34.30 0) = demo_market"
  using buy_now_sell_now_same [of demo_market "''TEA''" 10 "34.30" 0]
    buy_now_sell_now_same [of demo_market "''ZZZ''" 10 "34.30" 0]
  by (simp add: sample_defs buy_now_def sell_now_def add_trade_def set_price_def
      is_valid_price_def)

section \<open>Updating many prices\<close>

lemma update_keys_present:
  "map_of al k = Some v \<Longrightarrow> map fst (AList.update k v' al) = map fst al"
  by (induction al) (auto split: if_splits)

lemma update_stock_prices_loop_effect:
  assumes "distinct (map fst items)"
  shows "fst (update_stock_prices_loop items (m, out)) = Inr () \<and>
    map fst (stocks_by_name (fst (snd (update_stock_prices_loop items (m, out))))) =
      map fst (stocks_by_name m) \<and>
    trade_id_counter (fst (snd (update_stock_prices_loop items (m, out)))) = trade_id_counter m \<and>
    (\<forall>k. map_of (stocks_by_name (fst (snd (update_stock_prices_loop items (m, out))))) k =
       map_option (\<lambda>s. case map_of items k of None \<Rightarrow> s | Some p \<Rightarrow> s\<lparr>price := p\<rparr>)
         (map_of (stocks_by_name m) k)) \<and>
    snd (snd (update_stock_prices_loop items (m, out))) =
      out @ map not_found_message
              (filter (\<lambda>k. map_of (stocks_by_name m) k = None) (map fst items))"
  using assms
proof (induction items arbitrary: m out)
  case Nil
  then show ?case by (simp add: option.map_ident)
next
  case (Cons item items)
  obtain nm p where item: "item = (nm, p)" by (cases item)
  from Cons.prems item have fresh: "map_of items nm = None" and dist: "distinct (map fst items)"
    by (simp_all add: map_of_eq_None_iff)
  show ?case
  proof (cases "map_of (stocks_by_name m) nm")
    case None
    show ?thesis
      using Cons.IH [OF dist, of m "out @ [not_found_message nm]"] None item
      by (auto simp add: map_option_case split: option.splits)
  next
    case (Some s)
    let ?m1 = "m\<lparr>stocks_by_name := AList.update nm (s\<lparr>price := p\<rparr>) (stocks_by_name m)\<rparr>"
    have keys: "map fst (stocks_by_name ?m1) = map fst (stocks_by_name m)"
      using Some by (simp add: update_keys_present)
    have look: "map_of (stocks_by_name ?m1) = (map_of (stocks_by_name m))(nm \<mapsto> s\<lparr>price := p\<rparr>)"
      by (simp add: AList.update_conv')
    have step: "update_stock_prices_loop (item # items) (m, out) =
                  update_stock_prices_loop items (?m1, out)"
      using Some item by (simp add: set_price_def is_valid_price_def)
    have same_none:
      "(map_of (stocks_by_name ?m1) k = None) = (map_of (stocks_by_name m) k = None)" for k
      using Some by (auto simp add: AList.update_conv')
    have nm_reg: "map_of (stocks_by_name m) nm \<noteq> None" using Some by simp
    show ?thesis
      unfolding step
      using Cons.IH [OF dist, of ?m1 out] keys same_none nm_reg fresh Some
      apply (simp only: look item)
      apply (auto simp add: map_option_case split: option.splits if_splits)
      done
  qed
qed

text \<open>
  Claim C7. For a price map (a dictionary, so its keys are distinct),
  \<open>update_stock_prices\<close> does not raise. Afterwards every registered stock that the map
  mentions has the mapped price and every other registered stock is as before; names,
  trade logs and the fields of the subclasses are unchanged, no stock is added or
  removed, and the trade-id counter is as before. For each unregistered symbol of the
  map, in the order of the map, the line \<open>Stock '<symbol>' not found.\<close> is printed,
  and nothing else: every entry is processed, whatever unknown symbols precede it.
\<close>

theorem update_stock_prices_partial:
  assumes "distinct (map fst new_prices)"
  shows "fst (update_stock_prices m new_prices) = Inr () \<and>
    map fst (stocks_by_name (fst (snd (update_stock_prices m new_prices)))) =
      map fst (stocks_by_name m) \<and>
    trade_id_counter (fst (snd (update_stock_prices m new_prices))) = trade_id_counter m \<and>
    (\<forall>k s. map_of (stocks_by_name m) k = Some s \<longrightarrow>
       map_of (stocks_by_name (fst (snd (update_stock_prices m new_prices)))) k =
         Some (case map_of new_prices k of None \<Rightarrow> s | Some p \<Rightarrow> s\<lparr>price := p\<rparr>)) \<and>
    (\<forall>k s s'. map_of (stocks_by_name m) k = Some s \<and>
       map_of (stocks_by_name (fst (snd (update_stock_prices m new_prices)))) k = Some s' \<longrightarrow>
         trades s' = trades s \<and> name s' = name s \<and> kind s' = kind s) \<and>
    (\<forall>k. map_of (stocks_by_name m) k = None \<longrightarrow>
       map_of (stocks_by_name (fst (snd (update_stock_prices m new_prices)))) k = None) \<and>
    snd (snd (update_stock_prices m new_prices)) =
      map (\<lambda>k. ''Stock '' @ [CHR 0x27] @ k @ [CHR 0x27] @ '' not found.'')
        (filter (\<lambda>k. map_of (stocks_by_name m) k = None) (map fst new_prices))"
proof -
  have message: "not_found_message =
      (\<lambda>k. ''Stock '' @ [CHR 0x27] @ k @ [CHR 0x27] @ '' not found.'')"
    by (rule ext) (simp add: not_found_message_def)
  show ?thesis
    using update_stock_prices_loop_effect [OF assms, of m "[]"]
    unfolding message
    by (auto simp add: update_stock_prices_def split: option.splits)
qed

theorem update_stock_prices_partial_witness:
  "distinct (map fst [(''ZZZ'', 10::real), (''TEA'', 40)]) \<and>
   map_of (stocks_by_name demo_market) ''TEA'' = Some tea \<and>
   map_of (stocks_by_name demo_market) ''ZZZ'' = None \<and>
   update_stock_prices demo_market [(''ZZZ'', 10), (''TEA'', 40)] =
     (Inr (),
      demo_market\<lparr>stocks_by_name := [(''TEA'', tea\<lparr>price := 40\<rparr>), (''GIN'', gin)]\<rparr>,
      [''Stock 'ZZZ' not found.''])"
  using update_stock_prices_partial [of "[(''ZZZ'', 10), (''TEA'', 40)]" demo_market]
  by (simp add: update_stock_prices_def set_price_def is_valid_price_def sample_defs
      not_found_message_def)

section \<open>Trade identifiers\<close>

lemma update_stock_prices_loop_counter:
  "trade_id_counter (fst (snd (update_stock_prices_loop items (m, out)))) = trade_id_counter m"
proof (induction items arbitrary: m out)
  case Nil
  then show ?case by simp
next
  case (Cons item items)
  obtain nm p where item: "item = (nm, p)" by (cases item)
  show ?case
    unfolding item
    by (cases "map_of (stocks_by_name m) nm")
      (simp_all add: Cons.IH set_price_def is_valid_price_def)
qed

lemma buy_now_step:
  "(fst (buy_now m nm q p t) = Inr () \<and>
      map trade_id (appended m (snd (buy_now m nm q p t)) nm) = [trade_id_counter m] \<and>
      trade_id_counter (snd (buy_now m nm q p t)) = trade_id_counter m + 1) \<or>
   ((\<exists>e. fst (buy_now m nm q p t) = Inl e) \<and>
      appended m (snd (buy_now m nm q p t)) nm = [] \<and>
      snd (buy_now m nm q p t) = m)"
proof (cases "map_of (stocks_by_name m) nm")
  case None
  then show ?thesis by (simp add: buy_now_def appended_def)
next
  case (Some s)
  then show ?thesis
    by (simp add: buy_now_def appended_def add_trade_def set_price_def is_valid_price_def
        AList.update_triv AList.update_conv')
qed

lemma sell_now_step:
  "(fst (sell_now m nm q p t) = Inr () \<and>
      map trade_id (appended m (snd (sell_now m nm q p t)) nm) = [trade_id_counter m] \<and>
      trade_id_counter (snd (sell_now m nm q p t)) = trade_id_counter m + 1) \<or>
   ((\<exists>e. fst (sell_now m nm q p t) = Inl e) \<and>
      appended m (snd (sell_now m nm q p t)) nm = [] \<and>
      snd (sell_now m nm q p t) = m)"
proof (cases "map_of (stocks_by_name m) nm")
  case None
  then show ?thesis by (simp add: sell_now_def appended_def)
next
  case (Some s)
  then show ?thesis
    by (simp add: sell_now_def appended_def add_trade_def set_price_def is_valid_price_def
        AList.update_triv AList.update_conv')
qed

text \<open>
  One call: a successful \<open>buy_now\<close> or \<open>sell_now\<close> records one trade, which carries the
  counter of the market before the call, and raises the counter by one; every other
  call records nothing and leaves the counter alone.
\<close>

lemma step_recorded:
  "(is_trade_call c \<and> fst (step m c) = Inr () \<and>
      map trade_id (recorded m c) = [trade_id_counter m] \<and>
      trade_id_counter (snd (step m c)) = trade_id_counter m + 1) \<or>
   (\<not> (is_trade_call c \<and> fst (step m c) = Inr ()) \<and>
      recorded m c = [] \<and>
      trade_id_counter (snd (step m c)) = trade_id_counter m)"
proof (cases c)
  case (Register s)
  then show ?thesis by (simp add: register_def)
next
  case (BuyNow nm q p t)
  then show ?thesis using buy_now_step [of m nm q p t] by auto
next
  case (SellNow nm q p t)
  then show ?thesis using sell_now_step [of m nm q p t] by auto
next
  case (UpdateStockPrices ps)
  have "snd (step m (UpdateStockPrices ps)) = fst (snd (update_stock_prices m ps))"
    by (simp split: prod.splits)
  with UpdateStockPrices show ?thesis
    using update_stock_prices_loop_counter [of ps m "[]"]
    by (simp add: update_stock_prices_def del: step.simps)
qed

lemma run_Cons:
  "fst (run m (c # cs)) = fst (run (snd (step m c)) cs)"
  "snd (run m (c # cs)) = recorded m c @ snd (run (snd (step m c)) cs)"
  by (simp_all split: prod.splits)

lemma run_ids:
  "map trade_id (snd (run m cs)) =
     [trade_id_counter m .. trade_id_counter m + int (successful_trades m cs) - 1] \<and>
   trade_id_counter (fst (run m cs)) = trade_id_counter m + int (successful_trades m cs)"
proof (induction cs arbitrary: m)
  case Nil
  then show ?case by simp
next
  case (Cons c cs)
  let ?m1 = "snd (step m c)"
  note IH = Cons.IH [of ?m1]
  from step_recorded [of c m] show ?case
  proof
    assume a: "is_trade_call c \<and> fst (step m c) = Inr () \<and>
      map trade_id (recorded m c) = [trade_id_counter m] \<and>
      trade_id_counter (snd (step m c)) = trade_id_counter m + 1"
    have "[trade_id_counter m ..
             trade_id_counter m + (1 + int (successful_trades ?m1 cs)) - 1] =
          trade_id_counter m #
            [trade_id_counter m + 1 ..
               trade_id_counter m + 1 + int (successful_trades ?m1 cs) - 1]"
      by (subst upto_rec1) (simp_all add: algebra_simps)
    with a IH show ?thesis by (simp add: run_Cons algebra_simps del: run.simps)
  next
    assume a: "\<not> (is_trade_call c \<and> fst (step m c) = Inr ()) \<and>
      recorded m c = [] \<and>
      trade_id_counter (snd (step m c)) = trade_id_counter m"
    with IH show ?thesis by (simp add: run_Cons del: run.simps)
  qed
qed

text \<open>
  Claim C5. Run any sequence of \<open>register\<close>, \<open>buy_now\<close>, \<open>sell_now\<close> and
  \<open>update_stock_prices\<close> calls on a new market. The trades recorded by the
  \<open>buy_now\<close> and \<open>sell_now\<close> calls carry, in the order of the calls, the identifiers
  1, 2, ..., n, where n is the number of these calls that succeeded: consecutive from
  1, strictly increasing, none skipped, none used twice; the counter ends at n + 1.
  A \<open>buy_now\<close> or \<open>sell_now\<close> that fails, on any market and with any error, leaves the
  counter as it was.
\<close>

theorem trade_ids_consecutive:
  "map trade_id (snd (run Market_init cs)) = [1 .. int (successful_trades Market_init cs)] \<and>
   length (snd (run Market_init cs)) = successful_trades Market_init cs \<and>
   trade_id_counter (fst (run Market_init cs)) = 1 + int (successful_trades Market_init cs) \<and>
   (\<forall>m nm q p t e. fst (buy_now m nm q p t) = Inl e \<longrightarrow>
      trade_id_counter (snd (buy_now m nm q p t)) = trade_id_counter m) \<and>
   (\<forall>m nm q p t e. fst (sell_now m nm q p t) = Inl e \<longrightarrow>
      trade_id_counter (snd (sell_now m nm q p t)) = trade_id_counter m)"
proof -
  have ids: "map trade_id (snd (run Market_init cs)) =
               [1 .. int (successful_trades Market_init cs)]"
    using run_ids [of Market_init cs] by (simp add: Market_init_def)
  have "length (map trade_id (snd (run Market_init cs))) = successful_trades Market_init cs"
    unfolding ids by simp
  then have len: "length (snd (run Market_init cs)) = successful_trades Market_init cs"
    by simp
  have cnt: "trade_id_counter (fst (run Market_init cs)) =
               1 + int (successful_trades Market_init cs)"
    using run_ids [of Market_init cs] by (simp add: Market_init_def)
  have b: "trade_id_counter (snd (buy_now m nm q p t)) = trade_id_counter m"
    if "fst (buy_now m nm q p t) = Inl e" for m nm q p t e
    using buy_now_step [of m nm q p t] that by auto
  have s: "trade_id_counter (snd (sell_now m nm q p t)) = trade_id_counter m"
    if "fst (sell_now m nm q p t) = Inl e" for m nm q p t e
    using sell_now_step [of m nm q p t] that by auto
  show ?thesis using ids len cnt b s by blast
qed

theorem trade_ids_consecutive_witness:
  "fst (buy_now (snd (register Market_init tea)) ''GIN'' 1 1 0) = Inl (ValueError NotFound) \<and>
   trade_id_counter (snd (buy_now (snd (register Market_init tea)) ''GIN'' 1 1 0)) = 1 \<and>
   successful_trades Market_init demo_calls = 3 \<and>
   map trade_id (snd (run Market_init demo_calls)) = [1, 2, 3] \<and>
   map indicator (snd (run Market_init demo_calls)) = [BUY, SELL, SELL] \<and>
   trade_id_counter (fst (run Market_init demo_calls)) = 4"
  using trade_ids_consecutive [of demo_calls]
  by (simp add: demo_calls_def sample_defs Market_init_def register_def buy_now_def sell_now_def
      add_trade_def set_price_def is_valid_price_def appended_def)

end
